theory Spec2Isabelle
  imports Complex_Main "HOL-Library.Multiset"
begin

section \<open>Time, errors and the stored rows\<close>

text \<open>
  A \<open>DateTimeField\<close> holds an instant with microsecond resolution; it is modelled as the
  number of microseconds since the epoch (UTC), a \<open>timedelta\<close> as a number of
  microseconds. Python floats (\<open>FloatField\<close>, true division) are modelled as reals:
  rounding is abstracted, the comparisons and the zero test of the code are kept.
\<close>

type_synonym datetime = int
type_synonym timedelta = int

definition timedelta_minutes :: "int \<Rightarrow> timedelta" where
  "timedelta_minutes n = n * 60000000"

definition timedelta_hours :: "int \<Rightarrow> timedelta" where
  "timedelta_hours n = n * 3600000000"

definition timedelta_days :: "int \<Rightarrow> timedelta" where
  "timedelta_days n = n * 86400000000"

text \<open>The exceptions that the modelled code can raise.\<close>

datatype error =
    FieldError string
  | ZeroDivisionError
  | IntegrityError
  | AttributeError string
  | OverflowError
  | OperationalError

text \<open>
  \<open>flows/models.py\<close>, class \<open>NetworkFlow\<close> (lines 11-62): one field per column, in the
  order of the class. \<open>pk\<close> is the automatic primary key column \<open>id\<close>; nullable
  columns are options; the JSON blob is kept as its text.
\<close>

record network_flow =
  pk :: nat
  flow_id :: string
  timestamp :: datetime
  first_seen :: datetime
  last_seen :: datetime
  src_ip :: string
  dst_ip :: string
  src_port :: int
  dst_port :: int
  protocol :: int
  protocol_name :: string
  packets :: int
  bytes :: int
  duration :: real
  input_interface :: "int option"
  output_interface :: "int option"
  tos :: int
  tcp_flags :: int
  src_country :: string
  src_city :: string
  dst_country :: string
  dst_city :: string
  src_asn :: "int option"
  dst_asn :: "int option"
  flow_data :: string
  created_at :: datetime
  updated_at :: datetime
  processed :: bool

section \<open>Derived fields of a flow\<close>

text \<open>Python's true division \<open>a / b\<close> raises \<open>ZeroDivisionError\<close> when \<open>b\<close> is zero.\<close>

definition truediv :: "real \<Rightarrow> real \<Rightarrow> error + real" where
  "truediv a b = (if b = 0 then Inl ZeroDivisionError else Inr (a / b))"

text \<open>\<open>NetworkFlow.bandwidth_mbps\<close> (models.py 108-113), a Python property.\<close>

definition bandwidth_mbps :: "network_flow \<Rightarrow> error + real" where
  "bandwidth_mbps f =
     (if duration f > 0
      then truediv (of_int (bytes f * 8)) (duration f * 1000000)
      else Inr 0)"

text \<open>\<open>NetworkFlow.packets_per_second\<close> (models.py 115-120), a Python property.\<close>

definition packets_per_second :: "network_flow \<Rightarrow> error + real" where
  "packets_per_second f =
     (if duration f > 0
      then truediv (of_int (packets f)) (duration f)
      else Inr 0)"

section \<open>Statistics, alerts and the store\<close>

text \<open>
  \<open>flows/models.py\<close>, class \<open>FlowStatistics\<close> (lines 123-164). The fields that
  \<open>calculate_flow_statistics\<close> returns form \<open>statistics_fields\<close>; the stored row adds
  \<open>created_at\<close>, which the database layer sets on insert. The fields \<open>period\<close> and
  \<open>timestamp\<close> carry the prefix \<open>fs_\<close>, since the flow row has a \<open>timestamp\<close> too.
  A JSON list of grouped rows is a list of tuples (key, count, packets, bytes), a JSON
  dictionary an association list.
\<close>

record statistics_fields =
  fs_period :: string
  fs_timestamp :: datetime
  total_flows :: int
  total_packets :: int
  total_bytes :: int
  avg_flow_duration :: real
  max_bandwidth :: real
  avg_bandwidth :: real
  top_src_ips :: "(string \<times> int \<times> int \<times> int) list"
  top_dst_ips :: "(string \<times> int \<times> int \<times> int) list"
  protocol_distribution :: "(string \<times> int) list"
  top_ports :: "(int \<times> int \<times> int \<times> int) list"
  country_distribution :: "(string \<times> int) list"
  asn_distribution :: "(int option \<times> int) list"

record flow_statistics = statistics_fields +
  fs_created_at :: datetime

text \<open>
  \<open>flows/models.py\<close>, class \<open>FlowAlert\<close> (lines 178-220). \<open>flow\<close> is the foreign key
  to \<open>NetworkFlow\<close> (the referenced primary key, or \<open>None\<close>); \<open>fa_flow_data\<close> and
  \<open>fa_timestamp\<close> are the alert's own \<open>flow_data\<close> and \<open>timestamp\<close>.
\<close>

record flow_alert =
  alert_type :: string
  severity :: string
  title :: string
  description :: string
  flow :: "nat option"
  fa_flow_data :: string
  fa_timestamp :: datetime
  acknowledged :: bool
  acknowledged_by :: "nat option"
  acknowledged_at :: "datetime option"
  threshold_value :: "real option"
  current_value :: "real option"

text \<open>
  The store: the three tables in insertion order, and the lines written with
  \<open>logger.error\<close> (the message before the colon, and the exception). Lines written with
  \<open>logger.info\<close> and the messages published to the channel layer are not part of it.
\<close>

record state =
  flows :: "network_flow list"
  statistics :: "flow_statistics list"
  alerts :: "flow_alert list"
  error_log :: "(string \<times> error) list"

definition log_error :: "string \<Rightarrow> error \<Rightarrow> state \<Rightarrow> state" where
  "log_error msg e st = st\<lparr>error_log := error_log st @ [(msg, e)]\<rparr>"

section \<open>Queries\<close>

text \<open>
  \<open>NetworkFlow.Meta.ordering = ['-timestamp']\<close>: a query set of flows is read in
  descending order of \<open>timestamp\<close>. The order among rows with equal timestamps is
  left to the database; the table order stands for it here, and the statements about
  the rows that are read are made on sets or multisets of rows.
\<close>

definition objects_filter :: "(network_flow \<Rightarrow> bool) \<Rightarrow> state \<Rightarrow> network_flow list" where
  "objects_filter P st = sort_key (\<lambda>f. - timestamp f) (filter P (flows st))"

text \<open>
  The columns of \<open>network_flows\<close> that hold numbers, by name, from the field declarations
  of \<open>NetworkFlow\<close>. A query resolves a name against the columns of the table:
  \<open>bandwidth_mbps\<close> and \<open>packets_per_second\<close> are Python properties of the class
  (models.py 108-120), not columns, and a query cannot resolve them.
\<close>

definition int_columns :: "(string \<times> (network_flow \<Rightarrow> int option)) list" where
  "int_columns =
     [(''id'', \<lambda>f. Some (int (pk f))),
      (''src_port'', \<lambda>f. Some (src_port f)),
      (''dst_port'', \<lambda>f. Some (dst_port f)),
      (''protocol'', \<lambda>f. Some (protocol f)),
      (''packets'', \<lambda>f. Some (packets f)),
      (''bytes'', \<lambda>f. Some (bytes f)),
      (''input_interface'', input_interface),
      (''output_interface'', output_interface),
      (''tos'', \<lambda>f. Some (tos f)),
      (''tcp_flags'', \<lambda>f. Some (tcp_flags f)),
      (''src_asn'', src_asn),
      (''dst_asn'', dst_asn)]"

definition float_columns :: "(string \<times> (network_flow \<Rightarrow> real option)) list" where
  "float_columns = [(''duration'', \<lambda>f. Some (duration f))]"

definition number_column :: "string \<Rightarrow> (network_flow \<Rightarrow> real option) option" where
  "number_column name =
     (case map_of float_columns name of
        Some g \<Rightarrow> Some g
      | None \<Rightarrow>
          (case map_of int_columns name of
             Some g \<Rightarrow> Some (\<lambda>f. map_option of_int (g f))
           | None \<Rightarrow> None))"

text \<open>
  \<open>aggregate(Sum(name))\<close>, \<open>aggregate(Avg(name))\<close> and \<open>aggregate(Max(name))\<close>: the
  aggregate of the values that are not NULL, \<open>None\<close> when there is none, and
  \<open>FieldError\<close> when the name is not a column. The source applies \<open>Sum\<close> to integer
  columns and \<open>Avg\<close>, \<open>Max\<close> to numeric names only.
\<close>

definition aggregate_Sum :: "string \<Rightarrow> network_flow list \<Rightarrow> error + int option" where
  "aggregate_Sum name fs =
     (case map_of int_columns name of
        None \<Rightarrow> Inl (FieldError name)
      | Some g \<Rightarrow>
          Inr (case List.map_filter g fs of [] \<Rightarrow> None | v # vs \<Rightarrow> Some (sum_list (v # vs))))"

definition aggregate_Avg :: "string \<Rightarrow> network_flow list \<Rightarrow> error + real option" where
  "aggregate_Avg name fs =
     (case number_column name of
        None \<Rightarrow> Inl (FieldError name)
      | Some g \<Rightarrow>
          Inr (case List.map_filter g fs of
                 [] \<Rightarrow> None
               | v # vs \<Rightarrow> Some (sum_list (v # vs) / of_nat (length (v # vs)))))"

definition aggregate_Max :: "string \<Rightarrow> network_flow list \<Rightarrow> error + real option" where
  "aggregate_Max name fs =
     (case number_column name of
        None \<Rightarrow> Inl (FieldError name)
      | Some g \<Rightarrow>
          Inr (case List.map_filter g fs of [] \<Rightarrow> None | v # vs \<Rightarrow> Some (fold max vs v)))"

text \<open>Python's \<open>x or 0\<close> on the result of an aggregate: 0 for \<open>None\<close> and for zero.\<close>

definition or0 :: "'a::zero option \<Rightarrow> 'a" where
  "or0 v = (case v of None \<Rightarrow> 0 | Some x \<Rightarrow> x)"

text \<open>
  \<open>values(key)\<close> groups the rows: the keys of the groups, each once. The database
  returns the groups in no particular order; the order of their first row stands for
  it here.
\<close>

fun group_keys :: "'k list \<Rightarrow> 'k list" where
  "group_keys [] = []"
| "group_keys (k # ks) = k # filter (\<lambda>x. x \<noteq> k) (group_keys ks)"

text \<open>
  \<open>values(key).annotate(count=Count('id'), packets=Sum('packets'), bytes=Sum('bytes'))\<close>
  followed by an explicit \<open>order_by\<close>, which replaces the default ordering of the
  model: the rows are grouped by the key alone.
\<close>

definition values_annotate ::
  "(network_flow \<Rightarrow> 'k) \<Rightarrow> network_flow list \<Rightarrow> ('k \<times> int \<times> int \<times> int) list" where
  "values_annotate key fs =
     map (\<lambda>k. let g = filter (\<lambda>f. key f = k) fs
              in (k, int (length g), sum_list (map packets g), sum_list (map bytes g)))
         (group_keys (map key fs))"

text \<open>\<open>.order_by('-bytes')[:10]\<close>.\<close>

definition top10_by_bytes :: "('k \<times> int \<times> int \<times> int) list \<Rightarrow> ('k \<times> int \<times> int \<times> int) list" where
  "top10_by_bytes rows = take 10 (sort_key (\<lambda>(k, c, p, b). - b) rows)"

text \<open>
  A \<open>values(key).annotate(...)\<close> query without \<open>order_by\<close>: the default ordering
  \<open>['-timestamp']\<close> of the model stays on the query, and its column enters the
  \<open>GROUP BY\<close> clause (Django up to 3.2, the releases that have the
  \<open>django.contrib.postgres\<close> \<open>JSONField\<close> of models.py 5). The groups are the pairs
  (key, timestamp); a row of the result shows the key and the annotation only.
\<close>

definition group_rows :: "(network_flow \<Rightarrow> 'k) \<Rightarrow> network_flow list \<Rightarrow> ('k \<times> datetime) list" where
  "group_rows key fs = group_keys (map (\<lambda>f. (key f, timestamp f)) fs)"

text \<open>\<open>values(key).annotate(count=Count('id'))\<close>, as the distributions use it.\<close>

definition values_count :: "(network_flow \<Rightarrow> 'k) \<Rightarrow> network_flow list \<Rightarrow> ('k \<times> int) list" where
  "values_count key fs =
     map (\<lambda>(k, t). (k, int (length (filter (\<lambda>f. key f = k \<and> timestamp f = t) fs))))
         (group_rows key fs)"

text \<open>
  \<open>values(key).annotate(n=Count(col, distinct=True))\<close>: per group, the number of
  distinct values of the column.
\<close>

definition values_count_distinct ::
  "(network_flow \<Rightarrow> 'k) \<Rightarrow> (network_flow \<Rightarrow> 'c) \<Rightarrow> network_flow list \<Rightarrow> ('k \<times> int) list" where
  "values_count_distinct key col fs =
     map (\<lambda>(k, t). (k, int (length (remdups (map col
                          (filter (\<lambda>f. key f = k \<and> timestamp f = t) fs))))))
         (group_rows key fs)"

text \<open>
  Python's \<open>dict(pairs)\<close>: the keys in the order of their first pair, each with the
  value of its last pair.
\<close>

fun dict_set :: "'k \<Rightarrow> 'v \<Rightarrow> ('k \<times> 'v) list \<Rightarrow> ('k \<times> 'v) list" where
  "dict_set k v [] = [(k, v)]"
| "dict_set k v ((k', v') # kvs) =
     (if k' = k then (k, v) # kvs else (k', v') # dict_set k v kvs)"

definition dict_of :: "('k \<times> 'v) list \<Rightarrow> ('k \<times> 'v) list" where
  "dict_of pairs = fold (\<lambda>(k, v). dict_set k v) pairs []"

section \<open>Windowed aggregator\<close>

text \<open>\<open>calculate_flow_statistics\<close> (tasks.py 180-247).\<close>

definition calculate_flow_statistics ::
  "network_flow list \<Rightarrow> string \<Rightarrow> datetime \<Rightarrow> error + statistics_fields" where
  "calculate_flow_statistics fl period ts =
     (case aggregate_Sum ''packets'' fl of Inl e \<Rightarrow> Inl e | Inr sum_packets \<Rightarrow>
      case aggregate_Sum ''bytes'' fl of Inl e \<Rightarrow> Inl e | Inr sum_bytes \<Rightarrow>
      case aggregate_Avg ''duration'' fl of Inl e \<Rightarrow> Inl e | Inr avg_duration \<Rightarrow>
      case aggregate_Max ''bandwidth_mbps'' fl of Inl e \<Rightarrow> Inl e | Inr max_bw \<Rightarrow>
      case aggregate_Avg ''bandwidth_mbps'' fl of Inl e \<Rightarrow> Inl e | Inr avg_bw \<Rightarrow>
        Inr \<lparr>fs_period = period,
             fs_timestamp = ts,
             total_flows = int (length fl),
             total_packets = or0 sum_packets,
             total_bytes = or0 sum_bytes,
             avg_flow_duration = or0 avg_duration,
             max_bandwidth = or0 max_bw,
             avg_bandwidth = or0 avg_bw,
             top_src_ips = top10_by_bytes (values_annotate src_ip fl),
             top_dst_ips = top10_by_bytes (values_annotate dst_ip fl),
             protocol_distribution = dict_of (values_count protocol_name fl),
             top_ports = top10_by_bytes (values_annotate dst_port fl),
             country_distribution =
               dict_of (values_count src_country (filter (\<lambda>f. src_country f \<noteq> []) fl)),
             asn_distribution =
               dict_of (values_count src_asn (filter (\<lambda>f. src_asn f \<noteq> None) fl))\<rparr>)"

text \<open>\<open>TruncMinute\<close>, \<open>TruncHour\<close>, \<open>TruncDay\<close> applied to an instant (in UTC).\<close>

datatype trunc = TruncMinute | TruncHour | TruncDay

fun apply_trunc :: "trunc \<Rightarrow> datetime \<Rightarrow> datetime" where
  "apply_trunc TruncMinute t = t - t mod timedelta_minutes 1"
| "apply_trunc TruncHour t = t - t mod timedelta_hours 1"
| "apply_trunc TruncDay t = t - t mod timedelta_days 1"

text \<open>The table \<open>periods\<close> of \<open>aggregate_flow_statistics\<close> (tasks.py 72-78).\<close>

definition periods :: "(string \<times> trunc \<times> timedelta) list" where
  "periods =
     [(''1m'', TruncMinute, timedelta_minutes 1),
      (''5m'', TruncMinute, timedelta_minutes 5),
      (''15m'', TruncMinute, timedelta_minutes 15),
      (''1h'', TruncHour, timedelta_hours 1),
      (''1d'', TruncDay, timedelta_days 1)]"

text \<open>\<open>FlowStatistics.objects.filter(period=p, timestamp=t).exists()\<close>.\<close>

definition statistics_exists :: "string \<Rightarrow> datetime \<Rightarrow> state \<Rightarrow> bool" where
  "statistics_exists p t st =
     (filter (\<lambda>s. fs_period s = p \<and> fs_timestamp s = t) (statistics st) \<noteq> [])"

text \<open>
  \<open>FlowStatistics.objects.create(**stats)\<close>: the insert fails with \<open>IntegrityError\<close>
  when a row with the same (period, timestamp) is stored
  (\<open>unique_together\<close>, models.py 168).
\<close>

definition statistics_create ::
  "datetime \<Rightarrow> statistics_fields \<Rightarrow> state \<Rightarrow> (error + unit) \<times> state" where
  "statistics_create now d st =
     (if statistics_exists (fs_period d) (fs_timestamp d) st
      then (Inl IntegrityError, st)
      else (Inr (),
            st\<lparr>statistics :=
                 statistics st @ [statistics_fields.extend d (flow_statistics.fields now)]\<rparr>))"

text \<open>
  The flows selected for a bucket (tasks.py 90-93):
  \<open>timestamp__gte = bucket_start - time_delta\<close>, \<open>timestamp__lt = bucket_start\<close>.
\<close>

definition bucket_flows :: "datetime \<Rightarrow> timedelta \<Rightarrow> state \<Rightarrow> network_flow list" where
  "bucket_flows bucket_start time_delta st =
     objects_filter
       (\<lambda>f. bucket_start - time_delta \<le> timestamp f \<and> timestamp f < bucket_start) st"

text \<open>
  The body of the loop over \<open>periods\<close> (tasks.py 80-104); \<open>now\<close> is the reading of
  \<open>timezone.now()\<close>. The result is the exception that leaves the body, if any, and the
  store.
\<close>

definition aggregate_period ::
  "datetime \<Rightarrow> string \<times> trunc \<times> timedelta \<Rightarrow> state \<Rightarrow> (error + unit) \<times> state" where
  "aggregate_period now p st =
     (case p of (period_name, trunc_func, time_delta) \<Rightarrow>
        let bucket_start = apply_trunc trunc_func now in
        if statistics_exists period_name bucket_start st then (Inr (), st)
        else
          let fl = bucket_flows bucket_start time_delta st in
          if fl = [] then (Inr (), st)
          else
            (case calculate_flow_statistics fl period_name bucket_start of
               Inl e \<Rightarrow> (Inl e, st)
             | Inr stats \<Rightarrow> statistics_create now stats st))"

fun aggregate_loop ::
  "datetime \<Rightarrow> (string \<times> trunc \<times> timedelta) list \<Rightarrow> state \<Rightarrow> (error + unit) \<times> state" where
  "aggregate_loop now [] st = (Inr (), st)"
| "aggregate_loop now (p # ps) st =
     (case aggregate_period now p st of
        (Inl e, st') \<Rightarrow> (Inl e, st')
      | (Inr u, st') \<Rightarrow> aggregate_loop now ps st')"

text \<open>
  \<open>aggregate_flow_statistics\<close> (tasks.py 65-113), every reading of the clock during one
  invocation being \<open>now\<close>. An exception is logged and raised again.
  \<open>send_statistics_updates\<close> only publishes and catches its own exceptions.
\<close>

definition aggregate_flow_statistics :: "datetime \<Rightarrow> state \<Rightarrow> (error + unit) \<times> state" where
  "aggregate_flow_statistics now st =
     (case aggregate_loop now periods st of
        (Inl e, st') \<Rightarrow> (Inl e, log_error ''Error aggregating statistics'' e st')
      | (Inr u, st') \<Rightarrow> (Inr u, st'))"

section \<open>Retention sweeper\<close>

text \<open>
  \<open>QuerySet.delete()\<close> on flows: the rows are removed, and with them every alert whose
  \<open>flow\<close> refers to one of them (\<open>on_delete=models.CASCADE\<close>, models.py 204).
\<close>

definition delete_flows :: "(network_flow \<Rightarrow> bool) \<Rightarrow> state \<Rightarrow> state" where
  "delete_flows P st =
     (let doomed = map pk (filter P (flows st))
      in st\<lparr>flows := filter (\<lambda>f. \<not> P f) (flows st),
            alerts := filter (\<lambda>a. case flow a of None \<Rightarrow> True | Some i \<Rightarrow> i \<notin> set doomed)
                             (alerts st)\<rparr>)"

text \<open>
  Python's \<open>timedelta(days=n)\<close> and the subtraction of a \<open>timedelta\<close> from a
  \<open>datetime\<close>: both raise \<open>OverflowError\<close> outside the range of their type (at most
  999999999 days; the years 1 to 9999).
\<close>

definition datetime_min :: datetime where
  "datetime_min = - 62135596800000000"

definition datetime_max :: datetime where
  "datetime_max = 253402300799999999"

definition timedelta_of_days :: "int \<Rightarrow> error + timedelta" where
  "timedelta_of_days n =
     (if \<bar>n\<bar> \<le> 999999999 then Inr (timedelta_days n) else Inl OverflowError)"

definition datetime_minus :: "datetime \<Rightarrow> timedelta \<Rightarrow> error + datetime" where
  "datetime_minus t d =
     (if datetime_min \<le> t - d \<and> t - d \<le> datetime_max then Inr (t - d)
      else Inl OverflowError)"

text \<open>
  \<open>cleanup_old_flows\<close> (tasks.py 116-152). \<open>settings\<close> is
  \<open>settings.NETWORK_FLOW_SETTINGS\<close>, \<open>None\<close> when the attribute is missing; \<open>now\<close> is
  the reading of \<open>timezone.now()\<close>. An exception is logged and raised again; what was
  deleted before it stays deleted.
\<close>

definition cleanup_old_flows ::
  "(string \<rightharpoonup> int) option \<Rightarrow> datetime \<Rightarrow> state \<Rightarrow> (error + unit) \<times> state" where
  "cleanup_old_flows settings now st =
     (case settings of
        None \<Rightarrow>
          (Inl (AttributeError ''NETWORK_FLOW_SETTINGS''),
           log_error ''Error cleaning up old flows'' (AttributeError ''NETWORK_FLOW_SETTINGS'') st)
      | Some cfg \<Rightarrow>
          let retention_days =
                (case cfg ''FLOW_RETENTION_DAYS'' of None \<Rightarrow> 30 | Some d \<Rightarrow> d)
          in
          (case timedelta_of_days retention_days of
             Inl e \<Rightarrow> (Inl e, log_error ''Error cleaning up old flows'' e st)
           | Inr retention \<Rightarrow>
          (case datetime_minus now retention of
             Inl e \<Rightarrow> (Inl e, log_error ''Error cleaning up old flows'' e st)
           | Inr cutoff_date \<Rightarrow>
               let old_flows = (\<lambda>f. timestamp f < cutoff_date);
                   st1 = (if length (filter old_flows (flows st)) > 0
                          then delete_flows old_flows st else st);
                   old_stats = (\<lambda>s. fs_timestamp s < cutoff_date);
                   st2 = (if length (filter old_stats (statistics st1)) > 0
                          then st1\<lparr>statistics := filter (\<lambda>s. \<not> old_stats s) (statistics st1)\<rparr>
                          else st1)
               in
               (case datetime_minus now (timedelta_days 90) of
                  Inl e \<Rightarrow> (Inl e, log_error ''Error cleaning up old flows'' e st2)
                | Inr alert_cutoff \<Rightarrow>
                    let old_alerts = (\<lambda>a. fa_timestamp a < alert_cutoff);
                        st3 = (if length (filter old_alerts (alerts st2)) > 0
                               then st2\<lparr>alerts := filter (\<lambda>a. \<not> old_alerts a) (alerts st2)\<rparr>
                               else st2)
                    in (Inr (), st3)))))"

section \<open>Text of alerts\<close>

text \<open>Python's \<open>str\<close> of an integer, as an f-string prints it.\<close>

definition digit_char :: "nat \<Rightarrow> char" where
  "digit_char d = ''0123456789'' ! d"

fun str_nat :: "nat \<Rightarrow> string" where
  "str_nat n =
     (if n < 10 then [digit_char n]
      else str_nat (n div 10) @ [digit_char (n mod 10)])"

declare str_nat.simps [simp del]

definition str_int :: "int \<Rightarrow> string" where
  "str_int i = (if i < 0 then ''-'' @ str_nat (nat (- i)) else str_nat (nat i))"

text \<open>
  The format \<open>:.2f\<close> on the real-number abstraction of a float: the value rounded to two
  decimals (ties to even), with a sign for a negative value.
\<close>

definition round_half_even :: "real \<Rightarrow> int" where
  "round_half_even r =
     (let f = \<lfloor>r\<rfloor>; d = r - of_int f
      in if d < 1 / 2 then f else if d > 1 / 2 then f + 1 else if even f then f else f + 1)"

definition fmt_2f :: "real \<Rightarrow> string" where
  "fmt_2f x =
     (let n = nat (round_half_even (\<bar>x\<bar> * 100))
      in (if x < 0 then ''-'' else []) @ str_nat (n div 100) @ ''.''
         @ [digit_char (n mod 100 div 10), digit_char (n mod 10)])"

section \<open>Anomaly detector\<close>

text \<open>
  \<open>FlowAlert.objects.create(...)\<close>: the fields that the call does not give take their
  defaults, \<open>timestamp\<close> is set on insert (\<open>auto_now_add\<close>) to the reading of the
  clock.
\<close>

definition new_alert :: "datetime \<Rightarrow> string \<Rightarrow> string \<Rightarrow> string \<Rightarrow> string \<Rightarrow> flow_alert" where
  "new_alert now ty sev ttl descr =
     \<lparr>alert_type = ty, severity = sev, title = ttl, description = descr,
      flow = None, fa_flow_data = ''{}'', fa_timestamp = now,
      acknowledged = False, acknowledged_by = None, acknowledged_at = None,
      threshold_value = None, current_value = None\<rparr>"

definition alert_create :: "flow_alert \<Rightarrow> state \<Rightarrow> state" where
  "alert_create a st = st\<lparr>alerts := alerts st @ [a]\<rparr>"

text \<open>
  The query of every heuristic (tasks.py 349-351, 376-378, 404-406, 431-433):
  \<open>NetworkFlow.objects.filter(timestamp__gte=timezone.now() - timedelta(minutes=5))\<close>.
\<close>

definition recent_flows :: "datetime \<Rightarrow> state \<Rightarrow> network_flow list" where
  "recent_flows now st = objects_filter (\<lambda>f. now - timedelta_minutes 5 \<le> timestamp f) st"

text \<open>
  \<open>try: body except Exception as e: logger.error(...)\<close>: an exception of the body is
  logged and does not leave the function.
\<close>

definition try_except_log ::
  "string \<Rightarrow> (state \<Rightarrow> (error + unit) \<times> state) \<Rightarrow> state \<Rightarrow> state" where
  "try_except_log msg body st =
     (case body st of
        (Inl e, st') \<Rightarrow> log_error msg e st'
      | (Inr u, st') \<Rightarrow> st')"

text \<open>\<open>check_bandwidth_spikes\<close> (tasks.py 345-369): the body of the \<open>try\<close>, then the function.\<close>

definition bandwidth_spike_alert :: "datetime \<Rightarrow> real \<Rightarrow> real \<Rightarrow> flow_alert" where
  "bandwidth_spike_alert now avg_bw max_bw =
     (new_alert now ''bandwidth_spike'' ''medium''
        (''Bandwidth spike detected: '' @ fmt_2f max_bw @ '' Mbps'')
        (''Maximum bandwidth '' @ fmt_2f max_bw
           @ '' Mbps is significantly higher than average '' @ fmt_2f avg_bw @ '' Mbps''))
       \<lparr>threshold_value := Some (avg_bw * 5), current_value := Some max_bw\<rparr>"

definition bandwidth_spikes_body :: "datetime \<Rightarrow> state \<Rightarrow> (error + unit) \<times> state" where
  "bandwidth_spikes_body now st =
     (let recent = recent_flows now st in
      if recent \<noteq> [] then
        (case aggregate_Avg ''bandwidth_mbps'' recent of
           Inl e \<Rightarrow> (Inl e, st)
         | Inr a \<Rightarrow>
             (case aggregate_Max ''bandwidth_mbps'' recent of
                Inl e \<Rightarrow> (Inl e, st)
              | Inr m \<Rightarrow>
                  (let avg_bw = or0 a; max_bw = or0 m in
                   if max_bw > avg_bw * 5 \<and> max_bw > 100
                   then (Inr (), alert_create (bandwidth_spike_alert now avg_bw max_bw) st)
                   else (Inr (), st))))
      else (Inr (), st))"

definition check_bandwidth_spikes :: "datetime \<Rightarrow> state \<Rightarrow> state" where
  "check_bandwidth_spikes now =
     try_except_log ''Error checking bandwidth spikes'' (bandwidth_spikes_body now)"

text \<open>\<open>check_unusual_protocols\<close> (tasks.py 372-397).\<close>

definition unusual_protocol_alert :: "datetime \<Rightarrow> network_flow \<Rightarrow> flow_alert" where
  "unusual_protocol_alert now f =
     (new_alert now ''unusual_protocol'' ''low''
        (''Unusual protocol detected: '' @ protocol_name f)
        (''Protocol '' @ protocol_name f @ '' (ID: '' @ str_int (protocol f)
           @ '') detected from '' @ src_ip f @ '' to '' @ dst_ip f))
       \<lparr>flow := Some (pk f), current_value := Some (of_int (protocol f))\<rparr>"

definition unusual_protocols_body :: "datetime \<Rightarrow> state \<Rightarrow> (error + unit) \<times> state" where
  "unusual_protocols_body now st =
     (let unusual_protocols = filter (\<lambda>f. protocol f \<notin> {1, 6, 17}) (recent_flows now st) in
      if unusual_protocols \<noteq> []
      then (Inr (), fold (\<lambda>f. alert_create (unusual_protocol_alert now f)) unusual_protocols st)
      else (Inr (), st))"

definition check_unusual_protocols :: "datetime \<Rightarrow> state \<Rightarrow> state" where
  "check_unusual_protocols now =
     try_except_log ''Error checking unusual protocols'' (unusual_protocols_body now)"

text \<open>\<open>check_port_scans\<close> (tasks.py 400-424).\<close>

definition port_scan_alert :: "datetime \<Rightarrow> string \<times> int \<Rightarrow> flow_alert" where
  "port_scan_alert now source =
     (new_alert now ''port_scan'' ''medium''
        (''Potential port scan from '' @ fst source)
        (''Source '' @ fst source @ '' connected to '' @ str_int (snd source)
           @ '' different ports''))
       \<lparr>threshold_value := Some 10, current_value := Some (of_int (snd source))\<rparr>"

definition port_scan_sources :: "datetime \<Rightarrow> state \<Rightarrow> (string \<times> int) list" where
  "port_scan_sources now st =
     filter (\<lambda>source. snd source \<ge> 10)
            (values_count_distinct src_ip dst_port (recent_flows now st))"

definition port_scans_body :: "datetime \<Rightarrow> state \<Rightarrow> (error + unit) \<times> state" where
  "port_scans_body now st =
     (Inr (), fold (\<lambda>source. alert_create (port_scan_alert now source))
                   (port_scan_sources now st) st)"

definition check_port_scans :: "datetime \<Rightarrow> state \<Rightarrow> state" where
  "check_port_scans now = try_except_log ''Error checking port scans'' (port_scans_body now)"

text \<open>\<open>check_ddos_patterns\<close> (tasks.py 427-451).\<close>

definition ddos_alert :: "datetime \<Rightarrow> string \<times> int \<Rightarrow> flow_alert" where
  "ddos_alert now target =
     (new_alert now ''ddos_attack'' ''high''
        (''Potential DDoS attack on '' @ fst target)
        (''Destination '' @ fst target @ '' received traffic from '' @ str_int (snd target)
           @ '' different sources''))
       \<lparr>threshold_value := Some 50, current_value := Some (of_int (snd target))\<rparr>"

definition ddos_targets :: "datetime \<Rightarrow> state \<Rightarrow> (string \<times> int) list" where
  "ddos_targets now st =
     filter (\<lambda>target. snd target \<ge> 50)
            (values_count_distinct dst_ip src_ip (recent_flows now st))"

definition ddos_patterns_body :: "datetime \<Rightarrow> state \<Rightarrow> (error + unit) \<times> state" where
  "ddos_patterns_body now st =
     (Inr (), fold (\<lambda>target. alert_create (ddos_alert now target)) (ddos_targets now st) st)"

definition check_ddos_patterns :: "datetime \<Rightarrow> state \<Rightarrow> state" where
  "check_ddos_patterns now = try_except_log ''Error checking DDoS patterns'' (ddos_patterns_body now)"


section \<open>Anomaly detector on a storage layer that fails\<close>





section \<open>Enrichment\<close>

text \<open>
  \<open>get_geolocation\<close> and \<open>get_asn\<close> (tasks.py 250-270): the placeholders of the source.
\<close>

definition get_geolocation :: "string \<Rightarrow> string \<times> string" where
  "get_geolocation ip_address = ([], [])"

definition get_asn :: "string \<Rightarrow> int option" where
  "get_asn ip_address = None"

text \<open>\<open>NetworkFlow._get_protocol_name\<close> (models.py 95-106).\<close>

definition protocol_names :: "(int \<times> string) list" where
  "protocol_names =
     [(1, ''ICMP''), (6, ''TCP''), (17, ''UDP''), (47, ''GRE''), (50, ''ESP''), (51, ''AH''),
      (89, ''OSPF'')]"

definition get_protocol_name :: "network_flow \<Rightarrow> string" where
  "get_protocol_name f =
     (case map_of protocol_names (protocol f) of
        Some n \<Rightarrow> n
      | None \<Rightarrow> ''PROTO_'' @ str_int (protocol f))"

text \<open>
  \<open>NetworkFlow.save\<close> (models.py 78-87), the part before \<open>super().save\<close>: an empty
  \<open>flow_id\<close> and an empty \<open>protocol_name\<close> are filled in. \<open>generate_flow_id\<close> stands
  for \<open>_generate_flow_id\<close> (models.py 89-93), a SHA-256 digest computed by \<open>hashlib\<close>;
  it is a parameter.
\<close>

definition save_instance :: "(network_flow \<Rightarrow> string) \<Rightarrow> network_flow \<Rightarrow> network_flow" where
  "save_instance generate_flow_id f =
     (let f1 = (if flow_id f = [] then f\<lparr>flow_id := generate_flow_id f\<rparr> else f);
          f2 = (if protocol_name f1 = [] then f1\<lparr>protocol_name := get_protocol_name f1\<rparr> else f1)
      in f2)"

text \<open>
  \<open>flow.save()\<close>: the instance is prepared as above, \<open>updated_at\<close> is set to the reading
  of the clock (\<open>auto_now\<close>), and the row with the primary key of the instance is
  replaced; were there none, the instance would be inserted. \<open>flow_id\<close> is unique: a
  second row with the same \<open>flow_id\<close> makes the write fail.
\<close>

definition flow_save ::
  "(network_flow \<Rightarrow> string) \<Rightarrow> datetime \<Rightarrow> network_flow \<Rightarrow> state \<Rightarrow> (error + unit) \<times> state" where
  "flow_save generate_flow_id now f st =
     (let f3 = (save_instance generate_flow_id f)\<lparr>updated_at := now\<rparr>
      in if filter (\<lambda>g. pk g \<noteq> pk f3 \<and> flow_id g = flow_id f3) (flows st) \<noteq> []
         then (Inl IntegrityError, st)
         else if filter (\<lambda>g. pk g = pk f3) (flows st) \<noteq> []
         then (Inr (), st\<lparr>flows := map (\<lambda>g. if pk g = pk f3 then f3 else g) (flows st)\<rparr>)
         else (Inr (), st\<lparr>flows := flows st @ [f3\<lparr>created_at := now\<rparr>]\<rparr>))"

text \<open>
  The body of the loop over a batch, before \<open>flow.save()\<close> (tasks.py 38-50).
  \<open>not flow.src_asn\<close> holds for \<open>None\<close> and for 0.
\<close>

definition enrich :: "network_flow \<Rightarrow> network_flow" where
  "enrich f =
     (let f1 = (if src_country f = []
                then f\<lparr>src_country := fst (get_geolocation (src_ip f)),
                       src_city := snd (get_geolocation (src_ip f))\<rparr>
                else f);
          f2 = (if dst_country f1 = []
                then f1\<lparr>dst_country := fst (get_geolocation (dst_ip f1)),
                        dst_city := snd (get_geolocation (dst_ip f1))\<rparr>
                else f1);
          f3 = (if src_asn f2 = None \<or> src_asn f2 = Some 0
                then f2\<lparr>src_asn := get_asn (src_ip f2)\<rparr> else f2);
          f4 = (if dst_asn f3 = None \<or> dst_asn f3 = Some 0
                then f3\<lparr>dst_asn := get_asn (dst_ip f3)\<rparr> else f3)
      in f4\<lparr>processed := True\<rparr>)"

text \<open>\<open>for flow in batch\<close> (tasks.py 37-51): the rows of the batch as they were read.\<close>

fun process_batch ::
  "(network_flow \<Rightarrow> string) \<Rightarrow> datetime \<Rightarrow> network_flow list \<Rightarrow> state \<Rightarrow> (error + unit) \<times> state" where
  "process_batch generate_flow_id now [] st = (Inr (), st)"
| "process_batch generate_flow_id now (f # batch) st =
     (case flow_save generate_flow_id now (enrich f) st of
        (Inl e, st') \<Rightarrow> (Inl e, st')
      | (Inr u, st') \<Rightarrow> process_batch generate_flow_id now batch st')"

text \<open>
  \<open>NetworkFlow.objects.filter(processed=False)\<close>, a lazy query set: it is evaluated
  again by \<open>exists()\<close>, by \<open>count()\<close> and by every slice.
\<close>

definition unprocessed_flows :: "state \<Rightarrow> network_flow list" where
  "unprocessed_flows st = objects_filter (\<lambda>f. \<not> processed f) st"

text \<open>
  \<open>for i in range(0, count, batch_size)\<close> (tasks.py 33-53), the offsets given as a list;
  the batch is the slice \<open>unprocessed_flows[i:i + batch_size]\<close> of the query as it
  evaluates at that moment.
\<close>

fun process_batches ::
  "(network_flow \<Rightarrow> string) \<Rightarrow> datetime \<Rightarrow> nat \<Rightarrow> nat list \<Rightarrow> state \<Rightarrow> (error + unit) \<times> state" where
  "process_batches generate_flow_id now batch_size [] st = (Inr (), st)"
| "process_batches generate_flow_id now batch_size (i # offsets) st =
     (case process_batch generate_flow_id now
             (take batch_size (drop i (unprocessed_flows st))) st of
        (Inl e, st') \<Rightarrow> (Inl e, st')
      | (Inr u, st') \<Rightarrow> process_batches generate_flow_id now batch_size offsets st')"

text \<open>Python's \<open>range(0, n, step)\<close> as a list.\<close>

definition range_step :: "nat \<Rightarrow> nat \<Rightarrow> nat list" where
  "range_step n step = map (\<lambda>k. k * step) [0 ..< (n + step - 1) div step]"

text \<open>
  \<open>process_network_flows\<close> (tasks.py 19-62), every reading of the clock during one
  invocation being \<open>now\<close>. An exception is logged and raised again; the rows saved
  before it stay saved. \<open>send_flow_updates\<close> only publishes and catches its own
  exceptions.
\<close>

definition process_network_flows ::
  "(network_flow \<Rightarrow> string) \<Rightarrow> datetime \<Rightarrow> state \<Rightarrow> (error + unit) \<times> state" where
  "process_network_flows generate_flow_id now st =
     (if unprocessed_flows st = [] then (Inr (), st)
      else
        (case process_batches generate_flow_id now 100
                (range_step (length (unprocessed_flows st)) 100) st of
           (Inl e, st') \<Rightarrow> (Inl e, log_error ''Error processing flows'' e st')
         | (Inr u, st') \<Rightarrow> (Inr u, st')))"

section \<open>Notions used in the statements\<close>

text \<open>
  The number of distinct source addresses among the flows to a destination with
  \<open>timestamp \<ge> now - 5 minutes\<close>, in the words of the specification of the DDoS
  heuristic.
\<close>

definition distinct_sources :: "datetime \<Rightarrow> state \<Rightarrow> string \<Rightarrow> nat" where
  "distinct_sources now st d =
     card (src_ip ` {f \<in> set (flows st). now - timedelta_minutes 5 \<le> timestamp f \<and> dst_ip f = d})"

text \<open>
  What enrichment may change in a row, \<open>f\<close> before and \<open>f'\<close> after: the fields set at
  collection are kept; \<open>flow_id\<close> and \<open>protocol_name\<close> are kept when they are not
  empty; country and city are kept when the country is not empty; an ASN is kept when it
  is neither null nor 0; a row that was processed is left as it is, and a row that
  changed is processed afterwards.
\<close>

definition enrich_frame :: "network_flow \<Rightarrow> network_flow \<Rightarrow> bool" where
  "enrich_frame f f' \<longleftrightarrow>
     pk f' = pk f \<and> timestamp f' = timestamp f \<and> first_seen f' = first_seen f
     \<and> last_seen f' = last_seen f \<and> src_ip f' = src_ip f \<and> dst_ip f' = dst_ip f
     \<and> src_port f' = src_port f \<and> dst_port f' = dst_port f \<and> protocol f' = protocol f
     \<and> packets f' = packets f \<and> bytes f' = bytes f \<and> duration f' = duration f
     \<and> input_interface f' = input_interface f \<and> output_interface f' = output_interface f
     \<and> tos f' = tos f \<and> tcp_flags f' = tcp_flags f \<and> flow_data f' = flow_data f
     \<and> created_at f' = created_at f
     \<and> (flow_id f \<noteq> [] \<longrightarrow> flow_id f' = flow_id f)
     \<and> (protocol_name f \<noteq> [] \<longrightarrow> protocol_name f' = protocol_name f)
     \<and> (src_country f \<noteq> [] \<longrightarrow> src_country f' = src_country f \<and> src_city f' = src_city f)
     \<and> (dst_country f \<noteq> [] \<longrightarrow> dst_country f' = dst_country f \<and> dst_city f' = dst_city f)
     \<and> (src_asn f \<noteq> None \<and> src_asn f \<noteq> Some 0 \<longrightarrow> src_asn f' = src_asn f)
     \<and> (dst_asn f \<noteq> None \<and> dst_asn f \<noteq> Some 0 \<longrightarrow> dst_asn f' = dst_asn f)
     \<and> (processed f \<longrightarrow> f' = f)
     \<and> (f' \<noteq> f \<longrightarrow> processed f')"

section \<open>Example rows\<close>

text \<open>A flow row with the defaults of the model, from which the examples are built.\<close>

definition blank_flow :: network_flow where
  "blank_flow =
     \<lparr>pk = 1, flow_id = ''a3f1c2d4e5b60718'', timestamp = 0, first_seen = 0, last_seen = 0,
      src_ip = ''10.0.0.1'', dst_ip = ''10.0.0.2'', src_port = 40000, dst_port = 443,
      protocol = 6, protocol_name = ''TCP'', packets = 0, bytes = 0, duration = 0,
      input_interface = None, output_interface = None, tos = 0, tcp_flags = 0,
      src_country = [], src_city = [], dst_country = [], dst_city = [],
      src_asn = None, dst_asn = None, flow_data = ''{}'',
      created_at = 0, updated_at = 0, processed = False\<rparr>"

definition empty_state :: state where
  "empty_state = \<lparr>flows = [], statistics = [], alerts = [], error_log = []\<rparr>"

definition gre_flow :: network_flow where
  "gre_flow = blank_flow\<lparr>protocol := 47, protocol_name := ''GRE''\<rparr>"

text \<open>
  Six flows with per-flow bandwidths 100.01, 19.99, 0, 0, 0, 0 Mbps: their average is 20
  and their maximum 100.01.
\<close>

definition spike_state :: state where
  "spike_state =
     empty_state\<lparr>flows :=
       [blank_flow\<lparr>pk := 1, flow_id := ''5b1'', bytes := 12501250, duration := 1\<rparr>,
        blank_flow\<lparr>pk := 2, flow_id := ''5b2'', bytes := 2498750, duration := 1\<rparr>,
        blank_flow\<lparr>pk := 3, flow_id := ''5b3''\<rparr>, blank_flow\<lparr>pk := 4, flow_id := ''5b4''\<rparr>,
        blank_flow\<lparr>pk := 5, flow_id := ''5b5''\<rparr>, blank_flow\<lparr>pk := 6, flow_id := ''5b6''\<rparr>]\<rparr>"

text \<open>
  A flow at instant 0 and the alert that \<open>check_unusual_protocols\<close> raised for it one
  minute later.
\<close>

definition cascade_state :: state where
  "cascade_state =
     empty_state\<lparr>flows := [gre_flow\<lparr>pk := 7\<rparr>],
                  alerts := [unusual_protocol_alert 60000000 (gre_flow\<lparr>pk := 7\<rparr>)]\<rparr>"

text \<open>Two flows of an unusual protocol, one inside and one before the trailing window.\<close>

definition window_state :: state where
  "window_state =
     empty_state\<lparr>flows := [gre_flow\<lparr>pk := 1, timestamp := 700000000\<rparr>,
                            gre_flow\<lparr>pk := 2, timestamp := 100000000\<rparr>]\<rparr>"

text \<open>
  Fifty flows from fifty different sources to one destination, one microsecond apart.
\<close>

definition ddos_state :: state where
  "ddos_state =
     empty_state\<lparr>flows :=
       map (\<lambda>i. blank_flow\<lparr>pk := i, flow_id := ''d0'' @ str_nat i, timestamp := int i,
                              src_ip := ''192.0.2.'' @ str_nat i, dst_ip := ''10.0.0.9''\<rparr>)
           [0 ..< 50]\<rparr>"

text \<open>
  Stores for a run of the aggregator at 00:03:30, when the 1-minute bucket starts at
  00:03:00 and its window at 00:02:00: one with a flow at 00:02:30, one with a flow on
  the lower boundary 00:02:00.
\<close>

definition minute_state :: state where
  "minute_state = empty_state\<lparr>flows := [blank_flow\<lparr>timestamp := 150000000\<rparr>]\<rparr>"

definition boundary_state :: state where
  "boundary_state = empty_state\<lparr>flows := [blank_flow\<lparr>timestamp := 120000000\<rparr>]\<rparr>"

text \<open>
  A row as a collector may have written it, without \<open>flow_id\<close> and protocol name and
  with ASN 0; and a store with an enriched, unprocessed row and a processed row.
\<close>

definition raw_state :: state where
  "raw_state =
     empty_state\<lparr>flows :=
       [blank_flow\<lparr>flow_id := [], protocol_name := [], src_asn := Some 0\<rparr>]\<rparr>"

definition mixed_state :: state where
  "mixed_state =
     empty_state\<lparr>flows :=
       [blank_flow\<lparr>pk := 1, src_country := ''DE'', src_city := ''Berlin'',
                    src_asn := Some 64512\<rparr>,
        blank_flow\<lparr>pk := 2, flow_id := ''b7e0c2d4e5b60719'', dst_country := ''FR'',
                    processed := True\<rparr>]\<rparr>"

section \<open>Theorems\<close>

subsection \<open>Auxiliary facts\<close>

lemma set_objects_filter: "set (objects_filter P st) = {f \<in> set (flows st). P f}"
  by (simp add: objects_filter_def)

lemma trunc_floor:
  fixes g t :: int
  assumes "0 < g"
  shows "g dvd (t - t mod g) \<and> t - t mod g \<le> t \<and> t < t - t mod g + g"
proof -
  have "t - t mod g = g * (t div g)" by (simp add: minus_mod_eq_mult_div)
  moreover have "0 \<le> t mod g" "t mod g < g" using assms by simp_all
  ultimately show ?thesis by simp
qed

lemma timedelta_pos:
  "0 < timedelta_minutes 1" "0 < timedelta_hours 1" "0 < timedelta_days 1"
  by (simp_all add: timedelta_minutes_def timedelta_hours_def timedelta_days_def)

lemma log_error_simps [simp]:
  "flows (log_error m e st) = flows st"
  "statistics (log_error m e st) = statistics st"
  "alerts (log_error m e st) = alerts st"
  "error_log (log_error m e st) = error_log st @ [(m, e)]"
  by (simp_all add: log_error_def)

lemma fold_alert_create:
  "fold (\<lambda>x. alert_create (g x)) xs st = st\<lparr>alerts := alerts st @ map g xs\<rparr>"
  by (induction xs arbitrary: st) (simp_all add: alert_create_def)

lemma aggregate_bandwidth_FieldError:
  "aggregate_Avg ''bandwidth_mbps'' fs = Inl (FieldError ''bandwidth_mbps'')"
  "aggregate_Max ''bandwidth_mbps'' fs = Inl (FieldError ''bandwidth_mbps'')"
  by (simp_all add: aggregate_Avg_def aggregate_Max_def number_column_def float_columns_def
        int_columns_def)

lemma check_bandwidth_spikes_eq:
  "check_bandwidth_spikes now st =
     (if recent_flows now st = [] then st
      else log_error ''Error checking bandwidth spikes'' (FieldError ''bandwidth_mbps'') st)"
  by (simp add: check_bandwidth_spikes_def try_except_log_def bandwidth_spikes_body_def
        aggregate_bandwidth_FieldError Let_def)

lemma check_unusual_protocols_eq:
  "check_unusual_protocols now st =
     st\<lparr>alerts := alerts st @ map (unusual_protocol_alert now)
             (filter (\<lambda>f. protocol f \<notin> {1, 6, 17}) (recent_flows now st))\<rparr>"
  by (simp add: check_unusual_protocols_def try_except_log_def unusual_protocols_body_def
        fold_alert_create Let_def)

lemma check_port_scans_eq:
  "check_port_scans now st =
     st\<lparr>alerts := alerts st @ map (port_scan_alert now) (port_scan_sources now st)\<rparr>"
  by (simp add: check_port_scans_def try_except_log_def port_scans_body_def fold_alert_create)

lemma check_ddos_patterns_eq:
  "check_ddos_patterns now st =
     st\<lparr>alerts := alerts st @ map (ddos_alert now) (ddos_targets now st)\<rparr>"
  by (simp add: check_ddos_patterns_def try_except_log_def ddos_patterns_body_def
        fold_alert_create)

lemma recent_flows_update [simp]:
  "recent_flows now (st\<lparr>alerts := a\<rparr>) = recent_flows now st"
  "recent_flows now (st\<lparr>error_log := l\<rparr>) = recent_flows now st"
  "recent_flows now (log_error m e st) = recent_flows now st"
  by (simp_all add: recent_flows_def objects_filter_def log_error_def)

lemma port_scan_sources_update [simp]:
  "port_scan_sources now (st\<lparr>alerts := a\<rparr>) = port_scan_sources now st"
  "port_scan_sources now (log_error m e st) = port_scan_sources now st"
  by (simp_all add: port_scan_sources_def)

lemma ddos_targets_update [simp]:
  "ddos_targets now (st\<lparr>alerts := a\<rparr>) = ddos_targets now st"
  "ddos_targets now (log_error m e st) = ddos_targets now st"
  by (simp_all add: ddos_targets_def)

lemma recent_flows_window:
  "recent_flows now (st\<lparr>flows := filter (\<lambda>f. now - timedelta_minutes 5 \<le> timestamp f) (flows st)\<rparr>)
   = recent_flows now st"
  by (simp add: recent_flows_def objects_filter_def)

lemma bandwidth_spikes_never_alert:
  "alerts (check_bandwidth_spikes now st) = alerts st"
  by (simp add: check_bandwidth_spikes_eq)

subsection \<open>Derived fields\<close>

text \<open>
  C6. For every flow both derived fields return a value and never raise: when the
  duration is positive they are \<open>bytes * 8 / (duration * 1e6)\<close> and
  \<open>packets / duration\<close>, otherwise (in particular when the duration is 0) both are 0;
  the division is never reached with a zero divisor.
\<close>

theorem derived_fields_total:
  "bandwidth_mbps f =
     Inr (if duration f > 0 then of_int (bytes f) * 8 / (duration f * 1000000) else 0)
   \<and> packets_per_second f =
     Inr (if duration f > 0 then of_int (packets f) / duration f else 0)
   \<and> (duration f = 0 \<longrightarrow> bandwidth_mbps f = Inr 0 \<and> packets_per_second f = Inr 0)
   \<and> bandwidth_mbps f \<noteq> Inl ZeroDivisionError
   \<and> packets_per_second f \<noteq> Inl ZeroDivisionError"
  by (simp add: bandwidth_mbps_def packets_per_second_def truediv_def)


theorem derived_fields_total_witness:
  "duration (blank_flow\<lparr>duration := 0, bytes := 1500, packets := 3\<rparr>) = 0
   \<and> bandwidth_mbps (blank_flow\<lparr>duration := 0, bytes := 1500, packets := 3\<rparr>) = Inr 0
   \<and> packets_per_second (blank_flow\<lparr>duration := 0, bytes := 1500, packets := 3\<rparr>) = Inr 0
   \<and> bandwidth_mbps (blank_flow\<lparr>duration := 2, bytes := 25000000, packets := 3\<rparr>) = Inr 100
   \<and> packets_per_second (blank_flow\<lparr>duration := 2, bytes := 25000000, packets := 3\<rparr>) = Inr (3 / 2)"
  using derived_fields_total [of "blank_flow\<lparr>duration := 0, bytes := 1500, packets := 3\<rparr>"]
        derived_fields_total [of "blank_flow\<lparr>duration := 2, bytes := 25000000, packets := 3\<rparr>"]
  by (simp add: blank_flow_def)

subsection \<open>Windowed aggregator: buckets\<close>

text \<open>
  C2, as the code has it. For every row of \<open>periods\<close> the bucket start is \<open>now\<close>
  truncated with the function of that row: to the start of the current minute for the
  periods 1m, 5m and 15m, to the start of the hour for 1h, to the start of the day for
  1d. It is a multiple of that granularity, at most \<open>now\<close>, and less than one
  granularity before it.
\<close>

theorem bucket_start_granularity:
  "(name, tr, delta) \<in> set periods \<Longrightarrow>
     (let b = apply_trunc tr now;
          g = (if name \<in> {''1m'', ''5m'', ''15m''} then timedelta_minutes 1
               else if name = ''1h'' then timedelta_hours 1 else timedelta_days 1)
      in g dvd b \<and> b \<le> now \<and> now < b + g)"
proof -
  assume "(name, tr, delta) \<in> set periods"
  then consider
      "name = ''1m''" "tr = TruncMinute" | "name = ''5m''" "tr = TruncMinute"
    | "name = ''15m''" "tr = TruncMinute" | "name = ''1h''" "tr = TruncHour"
    | "name = ''1d''" "tr = TruncDay"
    unfolding periods_def by auto
  then show ?thesis
  proof cases
    case 1
    then show ?thesis using trunc_floor [OF timedelta_pos(1), of now] by simp
  next
    case 2
    then show ?thesis using trunc_floor [OF timedelta_pos(1), of now] by simp
  next
    case 3
    then show ?thesis using trunc_floor [OF timedelta_pos(1), of now] by simp
  next
    case 4
    then show ?thesis using trunc_floor [OF timedelta_pos(2), of now] by simp
  next
    case 5
    then show ?thesis using trunc_floor [OF timedelta_pos(3), of now] by simp
  qed
qed

theorem bucket_start_granularity_witness:
  "(''5m'', TruncMinute, timedelta_minutes 5) \<in> set periods
   \<and> timedelta_minutes 1 dvd apply_trunc TruncMinute 210000000
   \<and> apply_trunc TruncMinute 210000000 \<le> 210000000
   \<and> 210000000 < apply_trunc TruncMinute 210000000 + timedelta_minutes 1"
proof -
  have m: "(''5m'', TruncMinute, timedelta_minutes 5) \<in> set periods"
    by (simp add: periods_def)
  show ?thesis using m bucket_start_granularity [OF m, of 210000000] by (simp add: Let_def)
qed

text \<open>
  C2 as stated fails for the period 5m: three and a half minutes after the hour the
  bucket start is the third minute, which is not on a 5-minute boundary.
\<close>

theorem bucket_start_5m_counterexample:
  "(''5m'', TruncMinute, timedelta_minutes 5) \<in> set periods
   \<and> apply_trunc TruncMinute 210000000 = 180000000
   \<and> \<not> timedelta_minutes 5 dvd apply_trunc TruncMinute 210000000"
  by (simp add: periods_def timedelta_minutes_def)

lemma bucket_flows_half_open:
  "f \<in> set (bucket_flows bucket_start time_delta st) \<longleftrightarrow>
     f \<in> set (flows st) \<and> bucket_start - time_delta \<le> timestamp f \<and> timestamp f < bucket_start"
  by (auto simp: bucket_flows_def set_objects_filter)

subsection \<open>Windowed aggregator: statistics\<close>

text \<open>
  \<open>calculate_flow_statistics\<close> raises for every selection of flows: its fourth
  aggregate, \<open>Max('bandwidth_mbps')\<close> (tasks.py 187), names a property. So a run of the
  aggregator that reaches a period without a snapshot and with a flow in its window
  raises there, and no run creates a snapshot.
\<close>

lemma calculate_flow_statistics_raises:
  "calculate_flow_statistics fl period ts = Inl (FieldError ''bandwidth_mbps'')"
  by (simp add: calculate_flow_statistics_def aggregate_Sum_def aggregate_Avg_def
        aggregate_bandwidth_FieldError number_column_def int_columns_def float_columns_def)

lemma aggregate_reads_flows_and_statistics [simp]:
  "statistics_exists p t (log_error m e st) = statistics_exists p t st"
  "bucket_flows b d (log_error m e st) = bucket_flows b d st"
  by (simp_all add: statistics_exists_def bucket_flows_def objects_filter_def)

lemma aggregate_raises_on_first_window:
  assumes "\<not> statistics_exists ''1m'' (apply_trunc TruncMinute now) st"
    and "bucket_flows (apply_trunc TruncMinute now) (timedelta_minutes 1) st \<noteq> []"
  shows "aggregate_flow_statistics now st
     = (Inl (FieldError ''bandwidth_mbps''),
        log_error ''Error aggregating statistics'' (FieldError ''bandwidth_mbps'') st)"
proof -
  from assms have "aggregate_period now (''1m'', TruncMinute, timedelta_minutes 1) st
      = (Inl (FieldError ''bandwidth_mbps''), st)"
    by (simp add: aggregate_period_def Let_def calculate_flow_statistics_raises)
  then show ?thesis
    by (simp add: aggregate_flow_statistics_def periods_def)
qed

lemma aggregate_period_store: "snd (aggregate_period now p st) = st"
  by (cases p) (simp add: aggregate_period_def Let_def calculate_flow_statistics_raises)

lemma aggregate_loop_store: "snd (aggregate_loop now ps st) = st"
proof (induction ps)
  case Nil
  then show ?case by simp
next
  case (Cons p ps)
  obtain r where "aggregate_period now p st = (r, st)"
    using aggregate_period_store [of now p st] by (cases "aggregate_period now p st") simp
  with Cons show ?case by (cases r) simp_all
qed

lemma aggregate_never_creates:
  "statistics (snd (aggregate_flow_statistics now st)) = statistics st"
proof -
  obtain r where "aggregate_loop now periods st = (r, st)"
    using aggregate_loop_store [of now periods st]
    by (cases "aggregate_loop now periods st") simp
  then show ?thesis by (cases r) (simp_all add: aggregate_flow_statistics_def)
qed

text \<open>
  C1 at a store with one flow in the window of the 1-minute bucket and no snapshot:
  the first run raises \<open>FieldError\<close> and creates nothing, so the second run for the
  same \<open>now\<close> finds no snapshot for the bucket either, raises again, and the table of
  snapshots is still empty after both.
\<close>

theorem aggregate_twice_creates_nothing:
  "bucket_flows (apply_trunc TruncMinute 210000000) (timedelta_minutes 1) minute_state
     = flows minute_state
   \<and> flows minute_state \<noteq> []
   \<and> aggregate_flow_statistics 210000000 minute_state
       = (Inl (FieldError ''bandwidth_mbps''),
          log_error ''Error aggregating statistics'' (FieldError ''bandwidth_mbps'') minute_state)
   \<and> \<not> statistics_exists ''1m'' (apply_trunc TruncMinute 210000000)
         (snd (aggregate_flow_statistics 210000000 minute_state))
   \<and> statistics (snd (aggregate_flow_statistics 210000000
         (snd (aggregate_flow_statistics 210000000 minute_state)))) = []"
proof -
  have b: "bucket_flows (apply_trunc TruncMinute 210000000) (timedelta_minutes 1) minute_state
      = flows minute_state" "flows minute_state \<noteq> []"
    by (simp_all add: bucket_flows_def objects_filter_def minute_state_def empty_state_def
          blank_flow_def timedelta_minutes_def)
  have e: "\<not> statistics_exists ''1m'' (apply_trunc TruncMinute 210000000) minute_state"
    "statistics minute_state = []"
    by (simp_all add: statistics_exists_def minute_state_def empty_state_def)
  have b': "bucket_flows (apply_trunc TruncMinute 210000000) (timedelta_minutes 1) minute_state
      \<noteq> []" using b by simp
  note r1 = aggregate_raises_on_first_window [OF e(1) b']
  have r2: "aggregate_flow_statistics 210000000
      (log_error ''Error aggregating statistics'' (FieldError ''bandwidth_mbps'') minute_state)
      = (Inl (FieldError ''bandwidth_mbps''),
         log_error ''Error aggregating statistics'' (FieldError ''bandwidth_mbps'')
           (log_error ''Error aggregating statistics'' (FieldError ''bandwidth_mbps'') minute_state))"
    using e(1) b' by (intro aggregate_raises_on_first_window) simp_all
  show ?thesis using b e by (simp add: r1 r2)
qed

text \<open>
  C4 at a store whose flow is stamped exactly \<open>bucket_start - window\<close>: the flow is
  selected for the bucket, but the run raises \<open>FieldError\<close> while computing the
  statistics, and no statistics that include the flow are stored.
\<close>

theorem boundary_flow_not_aggregated:
  "map timestamp (flows boundary_state)
     = [apply_trunc TruncMinute 210000000 - timedelta_minutes 1]
   \<and> bucket_flows (apply_trunc TruncMinute 210000000) (timedelta_minutes 1) boundary_state
       = flows boundary_state
   \<and> fst (aggregate_flow_statistics 210000000 boundary_state)
       = Inl (FieldError ''bandwidth_mbps'')
   \<and> statistics (snd (aggregate_flow_statistics 210000000 boundary_state)) = []"
proof -
  have b: "bucket_flows (apply_trunc TruncMinute 210000000) (timedelta_minutes 1) boundary_state
      = flows boundary_state" "flows boundary_state \<noteq> []"
    "map timestamp (flows boundary_state)
       = [apply_trunc TruncMinute 210000000 - timedelta_minutes 1]"
    by (simp_all add: bucket_flows_def objects_filter_def boundary_state_def empty_state_def
          blank_flow_def timedelta_minutes_def)
  have e: "\<not> statistics_exists ''1m'' (apply_trunc TruncMinute 210000000) boundary_state"
    "statistics boundary_state = []"
    by (simp_all add: statistics_exists_def boundary_state_def empty_state_def)
  have b': "bucket_flows (apply_trunc TruncMinute 210000000) (timedelta_minutes 1) boundary_state
      \<noteq> []" using b by simp
  note r1 = aggregate_raises_on_first_window [OF e(1) b']
  show ?thesis using b e by (simp add: r1)
qed

subsection \<open>Anomaly detector\<close>

text \<open>
  C5, as the code has it. Every heuristic reads the flows through the same query, which
  holds exactly the flows with \<open>timestamp \<ge> now - 5 minutes\<close> and has no upper bound;
  the alerts that a heuristic emits do not change when all flows before the window are
  removed, so a flow before \<open>now - 5 minutes\<close> is considered by no heuristic.
\<close>

theorem heuristics_window:
  "(f \<in> set (recent_flows now st) \<longleftrightarrow>
      f \<in> set (flows st) \<and> now - timedelta_minutes 5 \<le> timestamp f)
   \<and> (let st' = st\<lparr>flows := filter (\<lambda>f. now - timedelta_minutes 5 \<le> timestamp f) (flows st)\<rparr>
      in alerts (check_bandwidth_spikes now st') = alerts (check_bandwidth_spikes now st)
       \<and> alerts (check_unusual_protocols now st') = alerts (check_unusual_protocols now st)
       \<and> alerts (check_port_scans now st') = alerts (check_port_scans now st)
       \<and> alerts (check_ddos_patterns now st') = alerts (check_ddos_patterns now st))"
proof -
  let ?st' = "st\<lparr>flows := filter (\<lambda>f. now - timedelta_minutes 5 \<le> timestamp f) (flows st)\<rparr>"
  have r: "recent_flows now ?st' = recent_flows now st" by (rule recent_flows_window)
  have "f \<in> set (recent_flows now st) \<longleftrightarrow>
      f \<in> set (flows st) \<and> now - timedelta_minutes 5 \<le> timestamp f"
    by (simp add: recent_flows_def set_objects_filter)
  moreover have "alerts (check_bandwidth_spikes now ?st') = alerts (check_bandwidth_spikes now st)"
    by (simp add: check_bandwidth_spikes_eq r log_error_def)
  moreover have "alerts (check_unusual_protocols now ?st') = alerts (check_unusual_protocols now st)"
    by (simp add: check_unusual_protocols_eq r)
  moreover have "alerts (check_port_scans now ?st') = alerts (check_port_scans now st)"
    by (simp add: check_port_scans_eq port_scan_sources_def r)
  moreover have "alerts (check_ddos_patterns now ?st') = alerts (check_ddos_patterns now st)"
    by (simp add: check_ddos_patterns_eq ddos_targets_def r)
  ultimately show ?thesis by (simp add: Let_def)
qed

theorem heuristics_window_witness:
  "gre_flow\<lparr>pk := 1, timestamp := 700000000\<rparr> \<in> set (recent_flows 900000000 window_state)
   \<and> gre_flow\<lparr>pk := 2, timestamp := 100000000\<rparr> \<notin> set (recent_flows 900000000 window_state)
   \<and> map flow (alerts (check_unusual_protocols 900000000 window_state)) = [Some 1]
   \<and> map flow (alerts (check_unusual_protocols 900000000
        (window_state\<lparr>flows := [gre_flow\<lparr>pk := 1, timestamp := 700000000\<rparr>]\<rparr>))) = [Some 1]"
proof -
  have w: "filter (\<lambda>f. 900000000 - timedelta_minutes 5 \<le> timestamp f) (flows window_state)
      = [gre_flow\<lparr>pk := 1, timestamp := 700000000\<rparr>]"
    by (simp add: window_state_def empty_state_def timedelta_minutes_def)
  have c: "map flow (alerts (check_unusual_protocols 900000000
        (window_state\<lparr>flows := [gre_flow\<lparr>pk := 1, timestamp := 700000000\<rparr>]\<rparr>))) = [Some 1]"
    by (simp add: check_unusual_protocols_eq recent_flows_def objects_filter_def
          window_state_def empty_state_def gre_flow_def timedelta_minutes_def
          unusual_protocol_alert_def new_alert_def)
  show ?thesis
    using heuristics_window [of "gre_flow\<lparr>pk := 1, timestamp := 700000000\<rparr>" 900000000 window_state]
          heuristics_window [of "gre_flow\<lparr>pk := 2, timestamp := 100000000\<rparr>" 900000000 window_state]
          c
    by (simp add: Let_def w) (simp add: window_state_def empty_state_def timedelta_minutes_def)
qed

text \<open>
  C5 as stated fails at the upper end: a flow whose timestamp is \<open>now\<close>, outside
  \<open>[now - 5 minutes, now)\<close>, is evaluated; it raises an unusual-protocol alert that is
  not raised without it.
\<close>

theorem heuristics_window_counterexample:
  "\<not> (1000 - timedelta_minutes 5 \<le> timestamp (gre_flow\<lparr>timestamp := 1000\<rparr>)
       \<and> timestamp (gre_flow\<lparr>timestamp := 1000\<rparr>) < 1000)
   \<and> map alert_type
        (alerts (check_unusual_protocols 1000 (empty_state\<lparr>flows := [gre_flow\<lparr>timestamp := 1000\<rparr>]\<rparr>)))
      = [''unusual_protocol'']
   \<and> alerts (check_unusual_protocols 1000 empty_state) = []"
  by (simp add: check_unusual_protocols_eq recent_flows_def objects_filter_def gre_flow_def
        blank_flow_def empty_state_def timedelta_minutes_def unusual_protocol_alert_def
        new_alert_def)

text \<open>
  C7 at an input where the spike condition holds: six flows of the window with
  bandwidths 100.01, 19.99, 0, 0, 0, 0 Mbps, so that the maximum 100.01 exceeds both
  five times the average 20 and 100. The aggregate over \<open>bandwidth_mbps\<close> raises
  \<open>FieldError\<close>, the handler logs it, and no alert is emitted.
\<close>

theorem bandwidth_spike_not_emitted:
  "map bandwidth_mbps (flows spike_state)
     = [Inr (10001 / 100), Inr (1999 / 100), Inr 0, Inr 0, Inr 0, Inr 0]
   \<and> (10001 / 100 :: real) > ((10001 / 100 + 1999 / 100 + 0 + 0 + 0 + 0) / 6) * 5
   \<and> (10001 / 100 :: real) > 100
   \<and> check_bandwidth_spikes 60000000 spike_state
       = spike_state\<lparr>error_log :=
           [(''Error checking bandwidth spikes'', FieldError ''bandwidth_mbps'')]\<rparr>
   \<and> alerts (check_bandwidth_spikes 60000000 spike_state) = []"
  by (simp add: check_bandwidth_spikes_eq log_error_def recent_flows_def objects_filter_def
        spike_state_def empty_state_def blank_flow_def bandwidth_mbps_def truediv_def
        timedelta_minutes_def)






subsection \<open>Retention sweeper\<close>

text \<open>
  C3 at an input where an alert younger than 90 days refers to a flow older than the
  flow retention: the flow is deleted 31 days after its timestamp, and the alert, 31
  days old, is deleted with it.
\<close>

theorem cleanup_cascade_deletes_recent_alert:
  "map fa_timestamp (alerts cascade_state) = [60000000]
   \<and> \<not> (60000000 < timedelta_days 31 - timedelta_days 90)
   \<and> cleanup_old_flows (Some Map.empty) (timedelta_days 31) cascade_state
       = (Inr (), empty_state)"
  by (simp add: cleanup_old_flows_def delete_flows_def cascade_state_def empty_state_def
        gre_flow_def blank_flow_def unusual_protocol_alert_def new_alert_def
        timedelta_of_days_def datetime_minus_def datetime_min_def datetime_max_def
        timedelta_days_def Let_def)


subsection \<open>DDoS fan-in\<close>

lemma length_filter_distinct_map:
  "distinct (map g xs) \<Longrightarrow> length (filter (\<lambda>x. P x \<and> g x = t) xs) \<le> 1"
  by (induction xs) (auto simp: filter_empty_conv image_iff)

lemma distinct_timestamps_recent:
  assumes "distinct (map timestamp (flows st))"
  shows "distinct (map timestamp (recent_flows now st))"
proof -
  have "mset (map timestamp (recent_flows now st))
      = mset (map timestamp (filter (\<lambda>f. now - timedelta_minutes 5 \<le> timestamp f) (flows st)))"
    by (simp add: recent_flows_def objects_filter_def)
  moreover have "distinct (map timestamp
      (filter (\<lambda>f. now - timedelta_minutes 5 \<le> timestamp f) (flows st)))"
    using assms by (rule distinct_map_filter)
  ultimately show ?thesis by (metis mset_eq_imp_distinct_iff)
qed

lemma ddos_targets_distinct_timestamps:
  assumes "distinct (map timestamp (flows st))"
  shows "ddos_targets now st = []"
proof -
  have "length (remdups (map src_ip
          (filter (\<lambda>f. dst_ip f = k \<and> timestamp f = t) (recent_flows now st)))) \<le> 1" for k t
  proof -
    have "length (remdups (map src_ip
          (filter (\<lambda>f. dst_ip f = k \<and> timestamp f = t) (recent_flows now st))))
        \<le> length (filter (\<lambda>f. dst_ip f = k \<and> timestamp f = t) (recent_flows now st))"
      using length_remdups_leq [of "map src_ip
          (filter (\<lambda>f. dst_ip f = k \<and> timestamp f = t) (recent_flows now st))"] by simp
    also have "\<dots> \<le> 1"
      by (rule length_filter_distinct_map [OF distinct_timestamps_recent [OF assms]])
    finally show ?thesis .
  qed
  then have "\<not> 50 \<le> int (length (remdups (map src_ip
          (filter (\<lambda>f. dst_ip f = k \<and> timestamp f = t) (recent_flows now st)))))" for k t
    by (simp add: order.trans [of _ 1 49] not_le less_le_trans [of _ 2 50] le_less_trans [of _ 1 50])
  then show ?thesis
    by (auto simp: ddos_targets_def values_count_distinct_def filter_empty_conv)
qed

lemma sources_distinct_50:
  "distinct (map (\<lambda>i. ''192.0.2.'' @ str_nat i) [0 ..< 50])"
  by code_simp

lemma ddos_state_flows:
  "map timestamp (flows ddos_state) = map int [0 ..< 50]"
  "map src_ip (flows ddos_state) = map (\<lambda>i. ''192.0.2.'' @ str_nat i) [0 ..< 50]"
  "f \<in> set (flows ddos_state) \<Longrightarrow> dst_ip f = ''10.0.0.9'' \<and> 0 \<le> timestamp f"
  "alerts ddos_state = []"
  by (auto simp: ddos_state_def empty_state_def blank_flow_def comp_def)

lemma distinct_sources_ddos_state:
  "distinct_sources 50 ddos_state ''10.0.0.9'' = 50"
proof -
  have "50 - timedelta_minutes 5 \<le> timestamp f \<and> dst_ip f = ''10.0.0.9''"
    if "f \<in> set (flows ddos_state)" for f
    using ddos_state_flows(3) [OF that] by (simp add: timedelta_minutes_def)
  then have "{f \<in> set (flows ddos_state).
          50 - timedelta_minutes 5 \<le> timestamp f \<and> dst_ip f = ''10.0.0.9''}
      = set (flows ddos_state)"
    by auto
  then have "distinct_sources 50 ddos_state ''10.0.0.9''
      = card (set (map src_ip (flows ddos_state)))"
    by (simp only: distinct_sources_def set_map)
  also have "\<dots> = 50"
    unfolding ddos_state_flows(2) using distinct_card [OF sources_distinct_50] by simp
  finally show ?thesis .
qed

text \<open>
  C8 at a store with fifty flows from fifty distinct sources to one destination, all in
  the window and one microsecond apart: the query groups by destination and timestamp,
  every group holds one source, and no alert is emitted, although the destination has
  50 distinct sources.
\<close>

theorem ddos_fan_in_split_by_timestamp:
  "distinct_sources 50 ddos_state ''10.0.0.9'' = 50
   \<and> length (flows ddos_state) = 50
   \<and> distinct (map timestamp (flows ddos_state))
   \<and> alerts ddos_state = []
   \<and> alerts (check_ddos_patterns 50 ddos_state) = []"
proof -
  have d: "distinct (map timestamp (flows ddos_state))"
    by (simp add: ddos_state_flows(1) distinct_map)
  have l: "length (flows ddos_state) = 50"
    using arg_cong [OF ddos_state_flows(1), of length] by simp
  show ?thesis
    using d l distinct_sources_ddos_state
    by (simp add: check_ddos_patterns_eq ddos_targets_distinct_timestamps [OF d]
          ddos_state_flows(4))
qed

subsection \<open>Enrichment\<close>

lemma enrich_fields [simp]:
  "pk (enrich f) = pk f" "timestamp (enrich f) = timestamp f"
  "first_seen (enrich f) = first_seen f" "last_seen (enrich f) = last_seen f"
  "src_ip (enrich f) = src_ip f" "dst_ip (enrich f) = dst_ip f"
  "src_port (enrich f) = src_port f" "dst_port (enrich f) = dst_port f"
  "protocol (enrich f) = protocol f" "packets (enrich f) = packets f"
  "bytes (enrich f) = bytes f" "duration (enrich f) = duration f"
  "input_interface (enrich f) = input_interface f"
  "output_interface (enrich f) = output_interface f"
  "tos (enrich f) = tos f" "tcp_flags (enrich f) = tcp_flags f"
  "flow_data (enrich f) = flow_data f" "created_at (enrich f) = created_at f"
  "flow_id (enrich f) = flow_id f" "protocol_name (enrich f) = protocol_name f"
  "processed (enrich f) = True"
  by (simp_all add: enrich_def Let_def)

lemma enrich_kept:
  "src_country f \<noteq> [] \<Longrightarrow> src_country (enrich f) = src_country f \<and> src_city (enrich f) = src_city f"
  "dst_country f \<noteq> [] \<Longrightarrow> dst_country (enrich f) = dst_country f \<and> dst_city (enrich f) = dst_city f"
  "src_asn f \<noteq> None \<and> src_asn f \<noteq> Some 0 \<Longrightarrow> src_asn (enrich f) = src_asn f"
  "dst_asn f \<noteq> None \<and> dst_asn f \<noteq> Some 0 \<Longrightarrow> dst_asn (enrich f) = dst_asn f"
  by (auto simp: enrich_def Let_def)

lemma save_instance_fields [simp]:
  "pk (save_instance gen f) = pk f" "timestamp (save_instance gen f) = timestamp f"
  "first_seen (save_instance gen f) = first_seen f" "last_seen (save_instance gen f) = last_seen f"
  "src_ip (save_instance gen f) = src_ip f" "dst_ip (save_instance gen f) = dst_ip f"
  "src_port (save_instance gen f) = src_port f" "dst_port (save_instance gen f) = dst_port f"
  "protocol (save_instance gen f) = protocol f" "packets (save_instance gen f) = packets f"
  "bytes (save_instance gen f) = bytes f" "duration (save_instance gen f) = duration f"
  "input_interface (save_instance gen f) = input_interface f"
  "output_interface (save_instance gen f) = output_interface f"
  "tos (save_instance gen f) = tos f" "tcp_flags (save_instance gen f) = tcp_flags f"
  "flow_data (save_instance gen f) = flow_data f" "created_at (save_instance gen f) = created_at f"
  "src_country (save_instance gen f) = src_country f" "src_city (save_instance gen f) = src_city f"
  "dst_country (save_instance gen f) = dst_country f" "dst_city (save_instance gen f) = dst_city f"
  "src_asn (save_instance gen f) = src_asn f" "dst_asn (save_instance gen f) = dst_asn f"
  "processed (save_instance gen f) = processed f"
  by (simp_all add: save_instance_def Let_def)

lemma save_instance_kept:
  "flow_id f \<noteq> [] \<Longrightarrow> flow_id (save_instance gen f) = flow_id f"
  "protocol_name f \<noteq> [] \<Longrightarrow> protocol_name (save_instance gen f) = protocol_name f"
  by (simp_all add: save_instance_def Let_def)

lemma enrich_frame_refl: "enrich_frame f f"
  by (simp add: enrich_frame_def)

lemma enrich_frame_pk: "enrich_frame f f' \<Longrightarrow> pk f' = pk f"
  by (simp add: enrich_frame_def)

lemma enrich_frame_trans:
  assumes "enrich_frame a b" "enrich_frame b c"
  shows "enrich_frame a c"
proof (cases "b = a")
  case True
  with assms show ?thesis by simp
next
  case ab: False
  show ?thesis
  proof (cases "c = b")
    case True
    with assms show ?thesis by simp
  next
    case False
    from ab assms(1) have "processed b" by (simp add: enrich_frame_def)
    with assms(2) have "c = b" by (simp add: enrich_frame_def)
    with False show ?thesis by simp
  qed
qed

lemma enrich_frame_saved:
  assumes "\<not> processed g"
  shows "enrich_frame g ((save_instance gen (enrich g))\<lparr>updated_at := now\<rparr>)"
  using assms enrich_kept [of g] save_instance_kept [of "enrich g" gen]
  by (simp add: enrich_frame_def)


lemma list_all2_update_row:
  assumes "list_all2 enrich_frame xs ys"
    and "\<forall>x \<in> set xs. pk x = pk r \<longrightarrow> enrich_frame x r"
  shows "list_all2 enrich_frame xs (map (\<lambda>h. if pk h = pk r then r else h) ys)"
  using assms by (induction rule: list_all2_induct) (auto simp: enrich_frame_pk)

lemma list_all2_right_member:
  "list_all2 R xs ys \<Longrightarrow> y \<in> set ys \<Longrightarrow> \<exists>x \<in> set xs. R x y"
  by (induction rule: list_all2_induct) auto

lemma list_all2_left_member:
  "list_all2 R xs ys \<Longrightarrow> x \<in> set xs \<Longrightarrow> \<exists>y \<in> set ys. R x y"
  by (induction rule: list_all2_induct) auto

lemma flow_save_frame:
  assumes d: "distinct (map pk (flows st0))"
    and inv: "list_all2 enrich_frame (flows st0) (flows st)"
    and g: "\<not> processed g" "f0 \<in> set (flows st0)" "enrich_frame f0 g"
    and s: "flow_save gen now (enrich g) st = (r, st')"
  shows "list_all2 enrich_frame (flows st0) (flows st') \<and> statistics st' = statistics st
         \<and> alerts st' = alerts st \<and> error_log st' = error_log st"
proof -
  let ?f3 = "(save_instance gen (enrich g))\<lparr>updated_at := now\<rparr>"
  have r3: "enrich_frame f0 ?f3"
    using enrich_frame_trans [OF g(3) enrich_frame_saved [OF g(1)]] .
  have pk3: "pk ?f3 = pk f0" using enrich_frame_pk [OF g(3)] by simp
  have only: "\<forall>x \<in> set (flows st0). pk x = pk ?f3 \<longrightarrow> enrich_frame x ?f3"
  proof (intro ballI impI)
    fix x assume "x \<in> set (flows st0)" "pk x = pk ?f3"
    with d g(2) pk3 have "x = f0" by (auto simp: distinct_map dest: inj_onD)
    with r3 show "enrich_frame x ?f3" by simp
  qed
  from list_all2_left_member [OF inv g(2)] obtain y where
    y: "y \<in> set (flows st)" "pk y = pk f0" by (auto simp: enrich_frame_pk)
  then have present: "filter (\<lambda>h. pk h = pk ?f3) (flows st) \<noteq> []"
    by (auto simp: filter_empty_conv pk3)
  show ?thesis
  proof (cases "filter (\<lambda>h. pk h \<noteq> pk ?f3 \<and> flow_id h = flow_id ?f3) (flows st) \<noteq> []")
    case True
    with s have "st' = st" by (simp add: flow_save_def Let_def)
    with inv show ?thesis by simp
  next
    case False
    with s present have "st' = st\<lparr>flows := map (\<lambda>h. if pk h = pk ?f3 then ?f3 else h) (flows st)\<rparr>"
      by (simp add: flow_save_def Let_def)
    with list_all2_update_row [OF inv only] show ?thesis by simp
  qed
qed

lemma process_batch_frame:
  assumes "distinct (map pk (flows st0))"
  shows "list_all2 enrich_frame (flows st0) (flows st) \<Longrightarrow>
     \<forall>g \<in> set batch. \<not> processed g \<and> (\<exists>f0 \<in> set (flows st0). enrich_frame f0 g) \<Longrightarrow>
     process_batch gen now batch st = (r, st') \<Longrightarrow>
     list_all2 enrich_frame (flows st0) (flows st') \<and> statistics st' = statistics st
       \<and> alerts st' = alerts st \<and> error_log st' = error_log st"
proof (induction batch arbitrary: st)
  case Nil
  then show ?case by simp
next
  case (Cons g batch)
  obtain r1 st1 where s: "flow_save gen now (enrich g) st = (r1, st1)"
    by (cases "flow_save gen now (enrich g) st")
  from Cons.prems(2) obtain f0 where g: "\<not> processed g" "f0 \<in> set (flows st0)" "enrich_frame f0 g"
    by auto
  note f = flow_save_frame [OF assms Cons.prems(1) g s]
  show ?case
  proof (cases r1)
    case (Inl e)
    with Cons.prems(3) s f show ?thesis by simp
  next
    case (Inr u)
    with Cons.prems(3) s have "process_batch gen now batch st1 = (r, st')" by simp
    from Cons.IH [OF _ _ this] f Cons.prems(2) show ?thesis by simp
  qed
qed

lemma unprocessed_flows_member:
  "g \<in> set (unprocessed_flows st) \<Longrightarrow> g \<in> set (flows st) \<and> \<not> processed g"
  by (simp add: unprocessed_flows_def set_objects_filter)

lemma process_batches_frame:
  assumes "distinct (map pk (flows st0))"
  shows "list_all2 enrich_frame (flows st0) (flows st) \<Longrightarrow>
     process_batches gen now n offsets st = (r, st') \<Longrightarrow>
     list_all2 enrich_frame (flows st0) (flows st') \<and> statistics st' = statistics st
       \<and> alerts st' = alerts st \<and> error_log st' = error_log st"
proof (induction offsets arbitrary: st)
  case Nil
  then show ?case by simp
next
  case (Cons i offsets)
  let ?batch = "take n (drop i (unprocessed_flows st))"
  obtain r1 st1 where s: "process_batch gen now ?batch st = (r1, st1)"
    by (cases "process_batch gen now ?batch st")
  have b: "\<forall>g \<in> set ?batch. \<not> processed g \<and> (\<exists>f0 \<in> set (flows st0). enrich_frame f0 g)"
  proof
    fix g assume "g \<in> set ?batch"
    then have "g \<in> set (unprocessed_flows st)" by (auto dest: in_set_takeD in_set_dropD)
    then have "g \<in> set (flows st)" "\<not> processed g" by (simp_all add: unprocessed_flows_member)
    with list_all2_right_member [OF Cons.prems(1)]
    show "\<not> processed g \<and> (\<exists>f0 \<in> set (flows st0). enrich_frame f0 g)" by simp
  qed
  note f = process_batch_frame [OF assms Cons.prems(1) b s]
  show ?case
  proof (cases r1)
    case (Inl e)
    with Cons.prems(2) s f show ?thesis by simp
  next
    case (Inr u)
    with Cons.prems(2) s have "process_batches gen now n offsets st1 = (r, st')" by simp
    from Cons.IH [OF _ this] f show ?thesis by simp
  qed
qed

lemma process_raw_state:
  "process_network_flows (\<lambda>f. ''00000000deadbeef'') 5 raw_state
     = (Inr (),
        empty_state\<lparr>flows :=
          [blank_flow\<lparr>flow_id := ''00000000deadbeef'', protocol_name := ''TCP'',
                       src_asn := None, updated_at := 5, processed := True\<rparr>]\<rparr>)"
  by (simp add: process_network_flows_def unprocessed_flows_def objects_filter_def
        raw_state_def empty_state_def blank_flow_def range_step_def flow_save_def
        save_instance_def enrich_def get_geolocation_def get_asn_def get_protocol_name_def
        protocol_names_def Let_def)

text \<open>
  C10, as the code has it. With the primary keys distinct, a run of the enrichment,
  completed or not, neither adds nor removes a row, and relates every row to its old
  value by \<open>enrich_frame\<close>: the fields set at collection are unchanged; country and
  city are rewritten only when the country was empty, an ASN only when it was null or
  0; an empty \<open>flow_id\<close> or \<open>protocol_name\<close> is filled in by \<open>save\<close>; a processed row
  is not touched and a touched row is processed. Statistics and alerts are unchanged.
\<close>

theorem enrichment_frame:
  "distinct (map pk (flows st)) \<Longrightarrow> process_network_flows gen now st = (r, st') \<Longrightarrow>
     list_all2 enrich_frame (flows st) (flows st')
     \<and> statistics st' = statistics st \<and> alerts st' = alerts st"
proof -
  assume d: "distinct (map pk (flows st))" and p: "process_network_flows gen now st = (r, st')"
  have i: "list_all2 enrich_frame (flows st) (flows st)"
    by (simp add: list_all2_same enrich_frame_refl)
  show ?thesis
  proof (cases "unprocessed_flows st = []")
    case True
    with p i show ?thesis by (simp add: process_network_flows_def)
  next
    case False
    obtain r1 st1 where s: "process_batches gen now 100
        (range_step (length (unprocessed_flows st)) 100) st = (r1, st1)"
      by (cases "process_batches gen now 100 (range_step (length (unprocessed_flows st)) 100) st")
    note f = process_batches_frame [OF d i s]
    from p False s have "st' = st1 \<or> (\<exists>e. st' = log_error ''Error processing flows'' e st1)"
      by (cases r1) (auto simp: process_network_flows_def)
    with f show ?thesis by (auto simp: log_error_def)
  qed
qed


theorem enrichment_frame_witness:
  "distinct (map pk (flows mixed_state))
   \<and> list_all2 enrich_frame (flows mixed_state)
        (flows (snd (process_network_flows (\<lambda>f. ''00000000deadbeef'') 5 mixed_state)))
   \<and> map processed (flows mixed_state) = [False, True]
   \<and> map processed (flows (snd (process_network_flows (\<lambda>f. ''00000000deadbeef'') 5 mixed_state)))
       = [True, True]
   \<and> map src_country (flows (snd (process_network_flows (\<lambda>f. ''00000000deadbeef'') 5 mixed_state)))
       = [''DE'', []]"
proof -
  let ?gen = "\<lambda>f::network_flow. ''00000000deadbeef''"
  have d: "distinct (map pk (flows mixed_state))"
    by (simp add: mixed_state_def empty_state_def)
  have p: "process_network_flows ?gen 5 mixed_state
      = (fst (process_network_flows ?gen 5 mixed_state),
         snd (process_network_flows ?gen 5 mixed_state))" by simp
  have e: "map processed (flows (snd (process_network_flows ?gen 5 mixed_state))) = [True, True]"
    "map src_country (flows (snd (process_network_flows ?gen 5 mixed_state))) = [''DE'', []]"
    by (simp_all add: process_network_flows_def unprocessed_flows_def objects_filter_def
        mixed_state_def empty_state_def blank_flow_def range_step_def flow_save_def
        save_instance_def enrich_def get_geolocation_def get_asn_def Let_def)
  have m: "map processed (flows mixed_state) = [False, True]"
    by (simp add: mixed_state_def empty_state_def blank_flow_def)
  show ?thesis using d m e enrichment_frame [OF d p] by simp
qed

text \<open>
  C10 as stated fails on a row that was stored without \<open>save\<close>: its empty \<open>flow_id\<close>
  and \<open>protocol_name\<close> are filled in, and its ASN 0, which is not absent, is
  overwritten with the result of the lookup.
\<close>

theorem enrichment_frame_counterexample:
  "map flow_id (flows raw_state) = [[]]
   \<and> map protocol_name (flows raw_state) = [[]]
   \<and> map src_asn (flows raw_state) = [Some 0]
   \<and> map flow_id (flows (snd (process_network_flows (\<lambda>f. ''00000000deadbeef'') 5 raw_state)))
       = [''00000000deadbeef'']
   \<and> map protocol_name (flows (snd (process_network_flows (\<lambda>f. ''00000000deadbeef'') 5 raw_state)))
       = [''TCP'']
   \<and> map src_asn (flows (snd (process_network_flows (\<lambda>f. ''00000000deadbeef'') 5 raw_state)))
       = [None]"
  by (simp add: process_raw_state) (simp add: raw_state_def empty_state_def)

end
